theory Spec2Isabelle
  imports Main "HOL-Library.Sublist"
begin

section \<open>Python strings\<close>

text \<open>
  A Python \<open>str\<close> is a sequence of code points and \<open>len\<close> counts them. For the
  texts the parser handles the model is \<open>string\<close>: a list of characters, each a code
  point below 256 (ASCII and Latin-1); the query of a request has a model of its own,
  over all of Unicode, in the section on \<open>request\<close>.
  \<open>str.isspace\<close>, and with it \<open>str.strip()\<close> and the regular expression class
  \<open>\s\<close> on a \<open>str\<close> pattern, hold on that range for U+0009..U+000D, U+001C..U+0020,
  U+0085 and U+00A0.
\<close>

definition isspace :: "char \<Rightarrow> bool" where
  "isspace c =
     (let n = (of_char c :: nat)
      in (9 \<le> n \<and> n \<le> 13) \<or> (28 \<le> n \<and> n \<le> 32) \<or> n = 133 \<or> n = 160)"

text \<open>\<open>s.strip()\<close>\<close>

definition strip :: "string \<Rightarrow> string" where
  "strip s = rev (dropWhile isspace (rev (dropWhile isspace s)))"

text \<open>\<open>re.sub(r'\s+', ' ', s)\<close>: every maximal run of whitespace becomes one space.\<close>

function re_sub_spaces :: "string \<Rightarrow> string" where
  "re_sub_spaces [] = []"
| "re_sub_spaces (c # cs) =
     (if isspace c then CHR '' '' # re_sub_spaces (dropWhile isspace cs)
      else c # re_sub_spaces cs)"
  by pat_completeness auto
termination
  by (relation "measure length") (auto simp: le_imp_less_Suc length_dropWhile_le)

text \<open>
  \<open>s.lower()\<close> on code points below 256: the ASCII capitals and the Latin-1 capitals
  U+00C0..U+00DE (U+00D7, the multiplication sign, apart) move up by 32.
\<close>

definition lower_char :: "char \<Rightarrow> char" where
  "lower_char c =
     (let n = (of_char c :: nat)
      in if (65 \<le> n \<and> n \<le> 90) \<or> (192 \<le> n \<and> n \<le> 222 \<and> n \<noteq> 215)
         then char_of (n + 32) else c)"

definition lower :: "string \<Rightarrow> string" where
  "lower s = map lower_char s"

text \<open>\<open>sep.join(xs)\<close>\<close>

fun join :: "string \<Rightarrow> string list \<Rightarrow> string" where
  "join sep [] = []"
| "join sep [x] = x"
| "join sep (x # y # ys) = x @ sep @ join sep (y # ys)"

text \<open>
  \<open>s.startswith(p)\<close> is \<^term>\<open>prefix p s\<close> and \<open>p in s\<close> is \<^term>\<open>sublist p s\<close>
  (a contiguous run), both of the list library.
\<close>

section \<open>Values and exceptions\<close>

text \<open>
  The exceptions of the model are all subclasses of Python's \<open>Exception\<close>, which is what
  the handlers of the module catch.
\<close>

datatype exn =
  AttributeError | TypeError | IndexError | UnicodeEncodeError | LibraryError string

text \<open>
  What an lxml node list holds, and so what the loops of the parser bind their variable
  to: an element, or a string (a text node or an attribute value).
\<close>

datatype 'e item = Elem 'e | Str string

text \<open>
  What \<open>element.xpath(expr)\<close> returns: a list for a node-set expression, a string for a
  string expression, and a boolean or a float otherwise, of which the parser only ever
  reads the truth value (the flag of \<open>XScalar\<close>).
\<close>

datatype 'e xval = XList "'e item list" | XStr string | XScalar bool

text \<open>
  The libraries the module calls, as parameters: \<open>lxml.html.fromstring\<close>, the
  \<open>xpath\<close> method and the truth value of an lxml element, and the two helpers the module
  imports from \<open>searx.utils\<close>: \<open>extract_text(link)\<close>, and
  \<open>eval_xpath_getindex(link, expr, 0, None)\<close>, which returns the attribute value found
  or the default \<open>None\<close>.
\<close>

record 'e lib =
  fromstring :: "string \<Rightarrow> exn + 'e"
  xpath :: "'e \<Rightarrow> string \<Rightarrow> exn + 'e xval"
  elem_bool :: "'e \<Rightarrow> bool"
  extract_text :: "'e item \<Rightarrow> exn + string option"
  eval_xpath_getindex :: "'e item \<Rightarrow> string \<Rightarrow> exn + string option"

text \<open>\<open>if v:\<close> on the value of an XPath evaluation.\<close>

fun truthy :: "'e xval \<Rightarrow> bool" where
  "truthy (XList xs) = (xs \<noteq> [])"
| "truthy (XStr s) = (s \<noteq> [])"
| "truthy (XScalar b) = b"

text \<open>\<open>isinstance(v, list)\<close>\<close>

fun is_list :: "'e xval \<Rightarrow> bool" where
  "is_list (XList xs) = True"
| "is_list (XStr s) = False"
| "is_list (XScalar b) = False"

text \<open>\<open>for x in v:\<close> a string iterates over its characters, a boolean or float raises.\<close>

fun py_iter :: "'e xval \<Rightarrow> exn + 'e item list" where
  "py_iter (XList xs) = Inr xs"
| "py_iter (XStr s) = Inr (map (\<lambda>c. Str [c]) s)"
| "py_iter (XScalar b) = Inl TypeError"

text \<open>\<open>v[0]\<close>\<close>

fun subscript0 :: "'e xval \<Rightarrow> exn + 'e item" where
  "subscript0 (XList []) = Inl IndexError"
| "subscript0 (XList (x # xs)) = Inr x"
| "subscript0 (XStr []) = Inl IndexError"
| "subscript0 (XStr (c # cs)) = Inr (Str [c])"
| "subscript0 (XScalar b) = Inl TypeError"

text \<open>\<open>v[:3]\<close>, as the items an iteration over the slice yields.\<close>

fun slice3 :: "'e xval \<Rightarrow> exn + 'e item list" where
  "slice3 (XList xs) = Inr (take 3 xs)"
| "slice3 (XStr s) = Inr (map (\<lambda>c. Str [c]) (take 3 s))"
| "slice3 (XScalar b) = Inl TypeError"

text \<open>\<open>x.strip()\<close>: an lxml element has no such method.\<close>

fun item_strip :: "'e item \<Rightarrow> exn + string" where
  "item_strip (Str s) = Inr (strip s)"
| "item_strip (Elem e) = Inl AttributeError"

section \<open>The engine: configuration\<close>

definition base_url :: string where
  "base_url = ''https://www.nishithdesai.com''"



section \<open>The engine: \<open>eval_xpath\<close>\<close>

text \<open>
  \<open>element.xpath(xpath_expr)\<close> on whatever the caller passes: the library's method on
  an element, an \<open>AttributeError\<close> on a string.
\<close>

fun element_xpath :: "'e lib \<Rightarrow> 'e item \<Rightarrow> string \<Rightarrow> exn + 'e xval" where
  "element_xpath L (Elem e) xpath_expr = xpath L e xpath_expr"
| "element_xpath L (Str s) xpath_expr = Inl AttributeError"

definition eval_xpath :: "'e lib \<Rightarrow> 'e item \<Rightarrow> string \<Rightarrow> 'e xval" where
  "eval_xpath L element xpath_expr =
     (case element_xpath L element xpath_expr of
        Inr v \<Rightarrow> v
      | Inl e \<Rightarrow> XList [])"

section \<open>The engine: \<open>response\<close>\<close>

text \<open>
  Modelled from the spec: \<open>searx.result_types\<close> is not among the sources. A result set
  is the ordered sequence of the records added (\<open>res.add\<close> appends, \<open>res.results\<close> is
  that sequence), a record a \<open>Link\<close> or a \<open>File\<close> built from the keyword arguments the
  parser passes.
\<close>

datatype result =
    Link (result_url: string) (result_title: string) (result_content: string)
  | File (result_url: string) (result_title: string) (result_content: string)
      (result_template: string)

definition result_selectors :: "string list" where
  \<open>result_selectors =
     [''//div[contains(@class, "search-result")]'',
      ''//div[contains(@class, "result")]'',
      ''//div[contains(@class, "article")]'',
      ''//div[contains(@class, "hotline")]'',
      ''//div[contains(@class, "news")]'',
      ''//div[contains(@class, "content-item")]'',
      ''//article'',
      ''//div[contains(@class, "list-item")]'']\<close>

definition title_selectors :: "string list" where
  \<open>title_selectors =
     [''.//h1/text()'',
      ''.//h2/text()'',
      ''.//h3/text()'',
      ''.//h4/text()'',
      ''.//a/text()'',
      ''.//strong/text()'',
      ''.//span[@class="title"]/text()'',
      ''.//div[@class="title"]/text()'']\<close>

definition url_selectors :: "string list" where
  "url_selectors = [''.//a/@href'', ''.//@href'']"

definition content_selectors :: "string list" where
  \<open>content_selectors =
     [''.//p/text()'',
      ''.//div[@class="content"]/text()'',
      ''.//div[@class="description"]/text()'',
      ''.//div[@class="excerpt"]/text()'',
      ''.//span[@class="snippet"]/text()'',
      ''.//text()'']\<close>

text \<open>
  The loop over \<open>result_selectors\<close>: \<open>results\<close> is overwritten by every evaluation and
  the loop breaks at the first truthy one.
\<close>

fun find_results :: "'e lib \<Rightarrow> 'e item \<Rightarrow> string list \<Rightarrow> 'e xval \<Rightarrow> 'e xval" where
  "find_results L doc [] results = results"
| "find_results L doc (selector # rest) results =
     (let results = eval_xpath L doc selector
      in if truthy results then results else find_results L doc rest results)"

text \<open>
  The loop over \<open>title_selectors\<close>: \<open>None\<close> when no selector is truthy, otherwise
  \<open>title_elements[0].strip()\<close> of the first truthy one.
\<close>

fun find_title :: "'e lib \<Rightarrow> 'e item \<Rightarrow> string list \<Rightarrow> exn + string option" where
  "find_title L result [] = Inr None"
| "find_title L result (title_sel # rest) =
     (let title_elements = eval_xpath L result title_sel
      in if truthy title_elements
         then (case subscript0 title_elements of
                 Inl e \<Rightarrow> Inl e
               | Inr x \<Rightarrow> (case item_strip x of Inl e \<Rightarrow> Inl e | Inr t \<Rightarrow> Inr (Some t)))
         else find_title L result rest)"

text \<open>
  What the specification asks of the title, in its words: the first non-empty text match
  in the priority order of the selectors. The text matches of a selector are the strings
  among the items it yields; a match is non-empty when something is left of it after
  trimming.
\<close>

fun item_texts :: "'e item list \<Rightarrow> string list" where
  "item_texts [] = []"
| "item_texts (Str s # xs) = s # item_texts xs"
| "item_texts (Elem e # xs) = item_texts xs"

definition selector_matches :: "'e lib \<Rightarrow> 'e item \<Rightarrow> string \<Rightarrow> 'e item list" where
  "selector_matches L result sel =
     (case py_iter (eval_xpath L result sel) of Inl e \<Rightarrow> [] | Inr xs \<Rightarrow> xs)"

definition first_nonempty_match :: "'e lib \<Rightarrow> 'e item \<Rightarrow> string list \<Rightarrow> string option" where
  "first_nonempty_match L result sels =
     (case filter (\<lambda>t. t \<noteq> [])
             (map strip (concat (map (\<lambda>sel. item_texts (selector_matches L result sel)) sels))) of
        [] \<Rightarrow> None
      | t # ts \<Rightarrow> Some t)"

text \<open>The loop over \<open>url_selectors\<close>: \<open>url_elements[0]\<close> of the first truthy one.\<close>

fun find_url :: "'e lib \<Rightarrow> 'e item \<Rightarrow> string list \<Rightarrow> exn + 'e item option" where
  "find_url L result [] = Inr None"
| "find_url L result (url_sel # rest) =
     (let url_elements = eval_xpath L result url_sel
      in if truthy url_elements
         then (case subscript0 url_elements of Inl e \<Rightarrow> Inl e | Inr x \<Rightarrow> Inr (Some x))
         else find_url L result rest)"

text \<open>The two branches under \<open># Normalize URL\<close>, the same in both tiers.\<close>

definition normalize_url :: "string \<Rightarrow> string" where
  "normalize_url url =
     (if prefix ''/'' url then base_url @ url
      else if \<not> prefix ''http'' url then base_url @ ''/'' @ url
      else url)"

text \<open>
  What the specification asks of an emitted URL, in its words: absolute, with the scheme
  \<open>http\<close> or \<open>https\<close>.
\<close>

definition is_absolute :: "string \<Rightarrow> bool" where
  "is_absolute url = (prefix ''http://'' url \<or> prefix ''https://'' url)"

text \<open>
  The comprehension \<open>[text.strip() for text in ... if text.strip()]\<close>: the first item
  without a \<open>strip\<close> method raises.
\<close>

fun stripped_nonempty :: "'e item list \<Rightarrow> exn + string list" where
  "stripped_nonempty [] = Inr []"
| "stripped_nonempty (x # xs) =
     (case item_strip x of
        Inl e \<Rightarrow> Inl e
      | Inr s \<Rightarrow>
          (case stripped_nonempty xs of
             Inl e \<Rightarrow> Inl e
           | Inr ss \<Rightarrow> Inr (if s \<noteq> [] then s # ss else ss)))"

text \<open>The loop over \<open>content_selectors\<close>, from \<open>content = ""\<close>.\<close>

fun find_content :: "'e lib \<Rightarrow> 'e item \<Rightarrow> string list \<Rightarrow> exn + string" where
  "find_content L result [] = Inr []"
| "find_content L result (content_sel # rest) =
     (let content_elements = eval_xpath L result content_sel
      in if truthy content_elements
         then (case slice3 content_elements of
                 Inl e \<Rightarrow> Inl e
               | Inr first3 \<Rightarrow>
                   (case stripped_nonempty first3 of
                      Inl e \<Rightarrow> Inl e
                    | Inr parts \<Rightarrow> Inr (join '' '' parts)))
         else find_content L result rest)"

text \<open>The three lines under \<open># Clean up content\<close>.\<close>

definition clean_content :: "string \<Rightarrow> string" where
  "clean_content content =
     (let content = strip (re_sub_spaces content)
      in if length content > 300 then take 297 content @ ''...'' else content)"

text \<open>
  The \<open>if\<close>/\<open>elif\<close> chain on \<open>url_lower\<close> with the \<open>res.add\<close> that follows it: a
  \<open>File\<close> in the PDF branch, a \<open>Link\<close> with the prefixed title in every other.
\<close>

definition classify :: "string \<Rightarrow> string \<Rightarrow> string \<Rightarrow> result" where
  "classify url title content =
     (let url_lower = lower url
      in if sublist ''hotline'' url_lower
         then Link url (''[Legal Hotline] '' @ title) content
         else if sublist ''research'' url_lower \<or> sublist ''article'' url_lower
         then Link url (''[Research Article] '' @ title) content
         else if sublist ''news'' url_lower
         then Link url (''[News] '' @ title) content
         else if sublist ''.pdf'' url_lower
         then File url title content ''files.html''
         else Link url (''[Legal Content] '' @ title) content)"

text \<open>
  The truth value of \<open>url\<close> in \<open>if not url\<close>, and the string the normalisation then
  works on: \<open>url.startswith\<close> raises on an element.
\<close>

fun item_truthy :: "'e lib \<Rightarrow> 'e item \<Rightarrow> bool" where
  "item_truthy L (Str s) = (s \<noteq> [])"
| "item_truthy L (Elem e) = elem_bool L e"

fun item_str :: "'e item \<Rightarrow> exn + string" where
  "item_str (Str s) = Inr s"
| "item_str (Elem e) = Inl AttributeError"

text \<open>
  The body of \<open>for result in results\<close>. \<open>Inl e\<close>: the body raised \<open>e\<close>, which the
  handler of the body catches; \<open>Inr None\<close>: a \<open>continue\<close> was reached; \<open>Inr (Some r)\<close>:
  the record \<open>r\<close> was added. In all three the loop goes on with the next candidate.
\<close>

definition process_result :: "'e lib \<Rightarrow> 'e item \<Rightarrow> exn + result option" where
  "process_result L result =
     (case find_title L result title_selectors of
        Inl e \<Rightarrow> Inl e
      | Inr title \<Rightarrow>
          (case title of
             None \<Rightarrow> Inr None
           | Some title \<Rightarrow>
               if title = [] \<or> length title < 5 then Inr None
               else
                 (case find_url L result url_selectors of
                    Inl e \<Rightarrow> Inl e
                  | Inr None \<Rightarrow> Inr None
                  | Inr (Some url) \<Rightarrow>
                      if \<not> item_truthy L url then Inr None
                      else
                        (case item_str url of
                           Inl e \<Rightarrow> Inl e
                         | Inr url \<Rightarrow>
                             (case find_content L result content_selectors of
                                Inl e \<Rightarrow> Inl e
                              | Inr content \<Rightarrow>
                                  Inr (Some (classify (normalize_url url) title
                                               (clean_content content))))))))"

fun process_results :: "'e lib \<Rightarrow> 'e item list \<Rightarrow> result list \<Rightarrow> result list" where
  "process_results L [] res = res"
| "process_results L (result # rest) res =
     (case process_result L result of
        Inr (Some r) \<Rightarrow> process_results L rest (res @ [r])
      | _ \<Rightarrow> process_results L rest res)"

text \<open>The record the body of the loop adds for a candidate, if it adds one.\<close>

definition added :: "'e lib \<Rightarrow> 'e item \<Rightarrow> result option" where
  "added L result = (case process_result L result of Inr (Some r) \<Rightarrow> Some r | _ \<Rightarrow> None)"

text \<open>
  The body of \<open>for link in all_links\<close>, up to the \<open>res.add\<close>; the outcomes read as those
  of \<^const>\<open>process_result\<close>.
\<close>

definition process_link :: "'e lib \<Rightarrow> 'e item \<Rightarrow> exn + result option" where
  "process_link L link =
     (case eval_xpath_getindex L link ''./@href'' of
        Inl e \<Rightarrow> Inl e
      | Inr href \<Rightarrow>
          (case extract_text L link of
             Inl e \<Rightarrow> Inl e
           | Inr link_text \<Rightarrow>
               (case (href, link_text) of
                  (Some href, Some link_text) \<Rightarrow>
                    if href \<noteq> [] \<and> link_text \<noteq> [] \<and> length (strip link_text) > 10
                       \<and> \<not> prefix ''#'' href
                       \<and> \<not> prefix ''javascript:'' href
                       \<and> \<not> prefix ''mailto:'' href
                    then Inr (Some (Link (normalize_url href) (strip link_text)
                                      ''Content from Nishith Desai Associates''))
                    else Inr None
                | _ \<Rightarrow> Inr None)))"

text \<open>The loop over \<open>all_links\<close>, which breaks once the result set holds 10 records.\<close>

fun fallback_links :: "'e lib \<Rightarrow> 'e item list \<Rightarrow> result list \<Rightarrow> result list" where
  "fallback_links L [] res = res"
| "fallback_links L (link # rest) res =
     (case process_link L link of
        Inr (Some r) \<Rightarrow>
          (let res = res @ [r]
           in if length res \<ge> 10 then res else fallback_links L rest res)
      | _ \<Rightarrow> fallback_links L rest res)"

text \<open>
  The candidates: the value of the first truthy container selector, and when there is
  none the links whose \<open>href\<close> holds a slash.
\<close>

definition select_results :: "'e lib \<Rightarrow> 'e item \<Rightarrow> 'e xval" where
  \<open>select_results L doc =
     (let results = find_results L doc result_selectors (XList [])
      in if \<not> truthy results
         then eval_xpath L doc ''//a[contains(@href, "/")]''
         else results)\<close>

text \<open>
  The block under \<open>if len(res.results) == 0\<close>: the exception that left it, if one did,
  and the result set as it left it.
\<close>

definition link_fallback :: "'e lib \<Rightarrow> 'e item \<Rightarrow> result list \<Rightarrow> exn option \<times> result list" where
  "link_fallback L doc res =
     (case py_iter (eval_xpath L doc ''//a[@href]'') of
        Inl e \<Rightarrow> (Some e, res)
      | Inr all_links \<Rightarrow> (None, fallback_links L all_links res))"

text \<open>
  The statements inside the outer \<open>try\<close>, run on the result set \<open>res\<close>: the exception that
  left them, if one did, and the result set as they left it.
\<close>

definition response_try :: "'e lib \<Rightarrow> string \<Rightarrow> result list \<Rightarrow> exn option \<times> result list" where
  "response_try L text res =
     (case fromstring L text of
        Inl e \<Rightarrow> (Some e, res)
      | Inr doc \<Rightarrow>
          (case py_iter (select_results L (Elem doc)) of
             Inl e \<Rightarrow> (Some e, res)
           | Inr candidates \<Rightarrow>
               (let res = process_results L candidates res
                in if length res = 0 then link_fallback L (Elem doc) res
                   else (None, res))))"

text \<open>
  \<open>response\<close>: the result set starts empty, the handler of the outer \<open>try\<close> passes, and
  the result set is returned whatever happened.
\<close>

definition response :: "'e lib \<Rightarrow> string \<Rightarrow> result list" where
  "response L text = snd (response_try L text [])"

section \<open>The engine: \<open>request\<close>\<close>






















subsection \<open>Reading a query string back\<close>
















section \<open>The engine: \<open>fetch_traits\<close>\<close>

text \<open>
  The traits object of the host: the attribute \<open>all_locale\<close>, the dictionaries
  \<open>languages\<close> and \<open>regions\<close>, and whatever else it holds.
\<close>

record traits =
  all_locale :: "string option"
  languages :: "string \<rightharpoonup> string"
  regions :: "string \<rightharpoonup> string"

definition fetch_traits :: "'a traits_scheme \<Rightarrow> 'a traits_scheme" where
  "fetch_traits engine_traits =
     engine_traits
       \<lparr>all_locale := Some ''en-IN'',
        languages := (languages engine_traits)(''en'' \<mapsto> ''English''),
        regions := (regions engine_traits)(''IN'' \<mapsto> ''India'', ''US'' \<mapsto> ''United States'')\<rparr>"

section \<open>Concrete documents\<close>

text \<open>
  A stand-in for the libraries on one parsed document, to run the parser on concrete
  inputs. The elements of the document are numbered, 0 its root. \<open>nodes\<close> lists what an
  XPath expression yields at an element (an expression that is not listed yields the
  empty list there, and the malformed expression \<open>//[\<close> raises); \<open>links\<close> lists the
  \<open>href\<close> and the visible text of the hyperlinks. The empty text does not parse.
\<close>

definition table_lib :: "((nat \<times> string) \<times> nat xval) list \<Rightarrow> (nat \<times> string \<times> string) list \<Rightarrow> nat lib" where
  "table_lib nodes links =
     \<lparr>fromstring =
        (\<lambda>text. if text = [] then Inl (LibraryError ''ParserError: Document is empty'')
                else Inr 0),
      xpath =
        (\<lambda>e expr. if expr = ''//['' then Inl (LibraryError ''XPathEvalError: Invalid expression'')
                  else (case map_of nodes (e, expr) of
                          Some v \<Rightarrow> Inr v
                        | None \<Rightarrow> Inr (XList []))),
      elem_bool = (\<lambda>e. False),
      extract_text =
        (\<lambda>x. case x of
                Elem e \<Rightarrow> Inr (map_option snd (map_of links e))
              | Str s \<Rightarrow> Inr (Some s)),
      eval_xpath_getindex =
        (\<lambda>x expr. case x of
                Elem e \<Rightarrow> Inr (map_option fst (map_of links e))
              | Str s \<Rightarrow> Inl (LibraryError ''SearxEngineXPathException''))\<rparr>"

text \<open>
  The example of the specification:
  \<^verbatim>\<open><article><h2>Cross-Border Tax Hotline</h2><p>Summary text.</p><a href="/hotline/123.html"></a></article>\<close>
  Element 0 is the \<open>article\<close>, element 1 its link.
\<close>

definition hotline_html :: string where
  \<open>hotline_html =
     ''<article><h2>Cross-Border Tax Hotline</h2><p>Summary text.</p><a href="/hotline/123.html"></a></article>''\<close>

definition hotline_doc :: "nat lib" where
  \<open>hotline_doc =
     table_lib
       [((0, ''//article''), XList [Elem 0]),
        ((0, ''.//h2/text()''), XList [Str ''Cross-Border Tax Hotline'']),
        ((0, ''.//a/@href''), XList [Str ''/hotline/123.html'']),
        ((0, ''.//@href''), XList [Str ''/hotline/123.html'']),
        ((0, ''.//p/text()''), XList [Str ''Summary text.'']),
        ((0, ''.//text()''), XList [Str ''Cross-Border Tax Hotline'', Str ''Summary text.'']),
        ((0, ''//a[contains(@href, "/")]''), XList [Elem 1]),
        ((0, ''//a[@href]''), XList [Elem 1]),
        ((1, ''.//@href''), XList [Str ''/hotline/123.html''])]
       [(1, ''/hotline/123.html'', [])]\<close>

text \<open>
  A result card whose link is relative and begins with the letters \<open>http\<close>:
  \<^verbatim>\<open><div class="result"><h2>HTTP status codes</h2><a href="http-status.html">Read more</a></div>\<close>
  Element 0 is the \<open>div\<close>, element 1 its link.
\<close>

definition http_html :: string where
  \<open>http_html =
     ''<div class="result"><h2>HTTP status codes</h2><a href="http-status.html">Read more</a></div>''\<close>

definition http_doc :: "nat lib" where
  \<open>http_doc =
     table_lib
       [((0, ''//div[contains(@class, "result")]''), XList [Elem 0]),
        ((0, ''.//h2/text()''), XList [Str ''HTTP status codes'']),
        ((0, ''.//a/text()''), XList [Str ''Read more'']),
        ((0, ''.//a/@href''), XList [Str ''http-status.html'']),
        ((0, ''.//@href''), XList [Str ''http-status.html'']),
        ((0, ''.//text()''), XList [Str ''HTTP status codes'', Str ''Read more'']),
        ((0, ''//a[@href]''), XList [Elem 1]),
        ((1, ''.//@href''), XList [Str ''http-status.html'']),
        ((1, ''.//text()''), XList [Str ''Read more''])]
       [(1, ''http-status.html'', ''Read more'')]\<close>

text \<open>
  Two result cards that link to PDF files, the first under a path that holds the word
  \<open>hotline\<close>:
  \<^verbatim>\<open><div><div class="result"><h3>Tax note 2024</h3><a href="/hotline/note.pdf">Download</a></div><div class="result"><h3>Annual report</h3><a href="/files/annual.pdf">Download</a></div></div>\<close>
  Element 0 is the outer \<open>div\<close>, elements 1 and 2 are the cards, 3 and 4 their links.
\<close>

definition pdf_html :: string where
  \<open>pdf_html =
     ''<div><div class="result"><h3>Tax note 2024</h3><a href="/hotline/note.pdf">Download</a></div><div class="result"><h3>Annual report</h3><a href="/files/annual.pdf">Download</a></div></div>''\<close>

definition pdf_doc :: "nat lib" where
  \<open>pdf_doc =
     table_lib
       [((0, ''//div[contains(@class, "result")]''), XList [Elem 1, Elem 2]),
        ((0, ''//a[contains(@href, "/")]''), XList [Elem 3, Elem 4]),
        ((0, ''//a[@href]''), XList [Elem 3, Elem 4]),
        ((1, ''.//h3/text()''), XList [Str ''Tax note 2024'']),
        ((1, ''.//a/text()''), XList [Str ''Download'']),
        ((1, ''.//a/@href''), XList [Str ''/hotline/note.pdf'']),
        ((1, ''.//@href''), XList [Str ''/hotline/note.pdf'']),
        ((1, ''.//text()''), XList [Str ''Tax note 2024'', Str ''Download'']),
        ((2, ''.//h3/text()''), XList [Str ''Annual report'']),
        ((2, ''.//a/text()''), XList [Str ''Download'']),
        ((2, ''.//a/@href''), XList [Str ''/files/annual.pdf'']),
        ((2, ''.//@href''), XList [Str ''/files/annual.pdf'']),
        ((2, ''.//text()''), XList [Str ''Annual report'', Str ''Download'']),
        ((3, ''.//@href''), XList [Str ''/hotline/note.pdf'']),
        ((3, ''.//text()''), XList [Str ''Download'']),
        ((4, ''.//@href''), XList [Str ''/files/annual.pdf'']),
        ((4, ''.//text()''), XList [Str ''Download''])]
       [(3, ''/hotline/note.pdf'', ''Download''), (4, ''/files/annual.pdf'', ''Download'')]\<close>

text \<open>
  A result card with a title and no link:
  \<^verbatim>\<open><div class="result"><h2>Untitled research memo</h2><p>No link here.</p></div>\<close>
\<close>

definition nolink_html :: string where
  \<open>nolink_html =
     ''<div class="result"><h2>Untitled research memo</h2><p>No link here.</p></div>''\<close>

definition nolink_doc :: "nat lib" where
  \<open>nolink_doc =
     table_lib
       [((0, ''//div[contains(@class, "result")]''), XList [Elem 0]),
        ((0, ''.//h2/text()''), XList [Str ''Untitled research memo'']),
        ((0, ''.//p/text()''), XList [Str ''No link here.'']),
        ((0, ''.//text()''), XList [Str ''Untitled research memo'', Str ''No link here.''])]
       []\<close>

text \<open>
  A result card whose first paragraph holds only a space:
  \<^verbatim>\<open><div class="result"><h2>Quarterly newsletter</h2><p> </p><p>alpha</p><p>beta</p><p>gamma</p><a href="/q3.html"></a></div>\<close>
  Element 0 is the \<open>div\<close>, element 1 its link.
\<close>

definition blank_html :: string where
  \<open>blank_html =
     ''<div class="result"><h2>Quarterly newsletter</h2><p> </p><p>alpha</p><p>beta</p><p>gamma</p><a href="/q3.html"></a></div>''\<close>

definition blank_doc :: "nat lib" where
  \<open>blank_doc =
     table_lib
       [((0, ''//div[contains(@class, "result")]''), XList [Elem 0]),
        ((0, ''.//h2/text()''), XList [Str ''Quarterly newsletter'']),
        ((0, ''.//a/@href''), XList [Str ''/q3.html'']),
        ((0, ''.//@href''), XList [Str ''/q3.html'']),
        ((0, ''.//p/text()''), XList [Str '' '', Str ''alpha'', Str ''beta'', Str ''gamma'']),
        ((0, ''.//text()''),
           XList [Str ''Quarterly newsletter'', Str '' '', Str ''alpha'', Str ''beta'', Str ''gamma'']),
        ((0, ''//a[contains(@href, "/")]''), XList [Elem 1]),
        ((0, ''//a[@href]''), XList [Elem 1]),
        ((1, ''.//@href''), XList [Str ''/q3.html''])]
       [(1, ''/q3.html'', [])]\<close>

text \<open>
  A page of bare links, with no result card:
  \<^verbatim>\<open><p><a href="/insights/funds.html">Fund formation insights</a><a href="#top">Back to the top of the page</a><a href="mailto:nda@example.com">Write to the editors</a><a href="/x">short</a></p>\<close>
  Element 0 is the paragraph, elements 1 to 4 are the links. \<open>count(//a)\<close> is a numeric
  expression: lxml returns the float 4.0 for it, which is truthy.
\<close>

definition links_html :: string where
  \<open>links_html =
     ''<p><a href="/insights/funds.html">Fund formation insights</a><a href="#top">Back to the top of the page</a><a href="mailto:nda@example.com">Write to the editors</a><a href="/x">short</a></p>''\<close>

definition links_doc :: "nat lib" where
  \<open>links_doc =
     table_lib
       [((0, ''//a[contains(@href, "/")]''), XList [Elem 1, Elem 4]),
        ((0, ''//a[@href]''), XList [Elem 1, Elem 2, Elem 3, Elem 4]),
        ((0, ''count(//a)''), XScalar True),
        ((0, ''.//a/text()''),
           XList [Str ''Fund formation insights'', Str ''Back to the top of the page'',
                  Str ''Write to the editors'', Str ''short'']),
        ((1, ''.//@href''), XList [Str ''/insights/funds.html'']),
        ((1, ''.//text()''), XList [Str ''Fund formation insights'']),
        ((2, ''.//@href''), XList [Str ''#top'']),
        ((2, ''.//text()''), XList [Str ''Back to the top of the page'']),
        ((3, ''.//@href''), XList [Str ''mailto:nda@example.com'']),
        ((3, ''.//text()''), XList [Str ''Write to the editors'']),
        ((4, ''.//@href''), XList [Str ''/x'']),
        ((4, ''.//text()''), XList [Str ''short''])]
       [(1, ''/insights/funds.html'', ''Fund formation insights''),
        (2, ''#top'', ''Back to the top of the page''),
        (3, ''mailto:nda@example.com'', ''Write to the editors''),
        (4, ''/x'', ''short'')]\<close>

text \<open>
  A result card with a long paragraph, the words \<open>lorem ipsum\<close> forty times over (480
  characters):
  \<^verbatim>\<open><div class="result"><h2>Long read on arbitration</h2><p>lorem ipsum lorem ipsum ... </p><a href="/insights/arbitration.html"></a></div>\<close>
  Element 0 is the \<open>div\<close>, element 1 its link.
\<close>

definition long_paragraph :: string where
  "long_paragraph = concat (replicate 40 ''lorem ipsum '')"

definition long_html :: string where
  \<open>long_html =
     ''<div class="result"><h2>Long read on arbitration</h2><p>'' @ long_paragraph
       @ ''</p><a href="/insights/arbitration.html"></a></div>''\<close>

definition long_doc :: "nat lib" where
  \<open>long_doc =
     table_lib
       [((0, ''//div[contains(@class, "result")]''), XList [Elem 0]),
        ((0, ''.//h2/text()''), XList [Str ''Long read on arbitration'']),
        ((0, ''.//a/@href''), XList [Str ''/insights/arbitration.html'']),
        ((0, ''.//@href''), XList [Str ''/insights/arbitration.html'']),
        ((0, ''.//p/text()''), XList [Str long_paragraph]),
        ((0, ''.//text()''), XList [Str ''Long read on arbitration'', Str long_paragraph]),
        ((0, ''//a[contains(@href, "/")]''), XList [Elem 1]),
        ((0, ''//a[@href]''), XList [Elem 1]),
        ((1, ''.//@href''), XList [Str ''/insights/arbitration.html''])]
       [(1, ''/insights/arbitration.html'', [])]\<close>

text \<open>
  A result card whose paragraph is the letter \<open>a\<close>, 400 spaces and the letter \<open>b\<close> (402
  characters):
  \<^verbatim>\<open><div class="result"><h2>Widely spaced note</h2><p>a    ...    b</p><a href="/insights/wide.html"></a></div>\<close>
  Element 0 is the \<open>div\<close>, element 1 its link.
\<close>

definition wide_paragraph :: string where
  "wide_paragraph = ''a'' @ replicate 400 CHR '' '' @ ''b''"

definition wide_html :: string where
  \<open>wide_html =
     ''<div class="result"><h2>Widely spaced note</h2><p>'' @ wide_paragraph
       @ ''</p><a href="/insights/wide.html"></a></div>''\<close>

definition wide_doc :: "nat lib" where
  \<open>wide_doc =
     table_lib
       [((0, ''//div[contains(@class, "result")]''), XList [Elem 0]),
        ((0, ''.//h2/text()''), XList [Str ''Widely spaced note'']),
        ((0, ''.//a/@href''), XList [Str ''/insights/wide.html'']),
        ((0, ''.//@href''), XList [Str ''/insights/wide.html'']),
        ((0, ''.//p/text()''), XList [Str wide_paragraph]),
        ((0, ''.//text()''), XList [Str ''Widely spaced note'', Str wide_paragraph]),
        ((0, ''//a[contains(@href, "/")]''), XList [Elem 1]),
        ((0, ''//a[@href]''), XList [Elem 1]),
        ((1, ''.//@href''), XList [Str ''/insights/wide.html''])]
       [(1, ''/insights/wide.html'', [])]\<close>

text \<open>
  A result card whose heading holds only a space, before a link with a good text:
  \<^verbatim>\<open><div class="result"><h2> </h2><a href="/insights/note.html">Proper anchor title</a></div>\<close>
  Element 0 is the \<open>div\<close>, element 1 its link.
\<close>

definition blanktitle_html :: string where
  \<open>blanktitle_html =
     ''<div class="result"><h2> </h2><a href="/insights/note.html">Proper anchor title</a></div>''\<close>

definition blanktitle_doc :: "nat lib" where
  \<open>blanktitle_doc =
     table_lib
       [((0, ''//div[contains(@class, "result")]''), XList [Elem 0]),
        ((0, ''.//h2/text()''), XList [Str '' '']),
        ((0, ''.//a/text()''), XList [Str ''Proper anchor title'']),
        ((0, ''.//a/@href''), XList [Str ''/insights/note.html'']),
        ((0, ''.//@href''), XList [Str ''/insights/note.html'']),
        ((0, ''.//text()''), XList [Str '' '', Str ''Proper anchor title'']),
        ((0, ''//a[contains(@href, "/")]''), XList [Elem 1]),
        ((0, ''//a[@href]''), XList [Elem 1]),
        ((1, ''.//@href''), XList [Str ''/insights/note.html'']),
        ((1, ''.//text()''), XList [Str ''Proper anchor title''])]
       [(1, ''/insights/note.html'', ''Proper anchor title'')]\<close>

section \<open>Properties of the parser\<close>

subsection \<open>Where the records of a result set come from\<close>

lemma process_results_sub:
  "set (process_results L cs res) \<subseteq> set res \<union> {r. \<exists>c \<in> set cs. process_result L c = Inr (Some r)}"
proof (induction cs arbitrary: res)
  case Nil
  then show ?case by simp
next
  case (Cons c cs)
  show ?case
  proof (cases "process_result L c")
    case (Inl e)
    then show ?thesis using Cons.IH [of res] by auto
  next
    case (Inr o1)
    then show ?thesis
    proof (cases o1)
      case None
      with Inr show ?thesis using Cons.IH [of res] by auto
    next
      case (Some r)
      with Inr show ?thesis using Cons.IH [of "res @ [r]"] by auto
    qed
  qed
qed

lemma fallback_links_sub:
  "set (fallback_links L ls res) \<subseteq> set res \<union> {r. \<exists>l \<in> set ls. process_link L l = Inr (Some r)}"
proof (induction ls arbitrary: res)
  case Nil
  then show ?case by simp
next
  case (Cons l ls)
  show ?case
  proof (cases "process_link L l")
    case (Inl e)
    then show ?thesis using Cons.IH [of res] by auto
  next
    case (Inr o1)
    then show ?thesis
    proof (cases o1)
      case None
      with Inr show ?thesis using Cons.IH [of res] by auto
    next
      case (Some r)
      with Inr show ?thesis using Cons.IH [of "res @ [r]"] by (auto simp: Let_def)
    qed
  qed
qed

lemma fallback_links_length:
  "length res < 10 \<Longrightarrow> length (fallback_links L ls res) \<le> 10"
proof (induction ls arbitrary: res)
  case Nil
  then show ?case by simp
next
  case (Cons l ls)
  show ?case
  proof (cases "process_link L l")
    case (Inl e)
    then show ?thesis using Cons by simp
  next
    case (Inr o1)
    then show ?thesis
    proof (cases o1)
      case None
      with Inr show ?thesis using Cons by simp
    next
      case (Some r)
      show ?thesis
      proof (cases "length (res @ [r]) \<ge> 10")
        case True
        with Inr Some Cons.prems show ?thesis by (simp add: Let_def)
      next
        case False
        then have "length (res @ [r]) < 10" by simp
        from Cons.IH [OF this] Inr Some False show ?thesis by (simp add: Let_def)
      qed
    qed
  qed
qed

lemma response_eq:
  "response L text =
     (case fromstring L text of
        Inl e \<Rightarrow> []
      | Inr doc \<Rightarrow>
          (case py_iter (select_results L (Elem doc)) of
             Inl e \<Rightarrow> []
           | Inr candidates \<Rightarrow>
               if process_results L candidates [] = []
               then snd (link_fallback L (Elem doc) [])
               else process_results L candidates []))"
  by (simp add: response_def response_try_def Let_def split: sum.splits)

lemma link_fallback_snd:
  "snd (link_fallback L doc res) =
     (case py_iter (eval_xpath L doc ''//a[@href]'') of
        Inl e \<Rightarrow> res
      | Inr all_links \<Rightarrow> fallback_links L all_links res)"
  by (simp add: link_fallback_def split: sum.splits)

lemma link_fallback_length: "length (snd (link_fallback L doc [])) \<le> 10"
  by (simp add: link_fallback_snd fallback_links_length split: sum.splits)

lemma link_fallback_sub:
  "r \<in> set (snd (link_fallback L doc [])) \<Longrightarrow> \<exists>link. process_link L link = Inr (Some r)"
  using fallback_links_sub [of L _ "[]"]
  by (auto simp: link_fallback_snd split: sum.splits)

lemma process_link_Some:
  "process_link L link = Inr (Some r) \<Longrightarrow>
     \<exists>href link_text.
        eval_xpath_getindex L link ''./@href'' = Inr (Some href) \<and>
        extract_text L link = Inr (Some link_text) \<and>
        r = Link (normalize_url href) (strip link_text) ''Content from Nishith Desai Associates'' \<and>
        href \<noteq> [] \<and> \<not> prefix ''#'' href \<and> \<not> prefix ''javascript:'' href \<and>
        \<not> prefix ''mailto:'' href \<and> length (strip link_text) > 10"
  by (auto simp: process_link_def split: sum.splits option.splits if_splits)

lemma item_str_Inr: "item_str x = Inr s \<longleftrightarrow> x = Str s"
  by (cases x) auto

lemma process_result_Some:
  "process_result L c = Inr (Some r) \<Longrightarrow>
     \<exists>title url content.
        find_title L c title_selectors = Inr (Some title) \<and> length title \<ge> 5 \<and>
        find_url L c url_selectors = Inr (Some (Str url)) \<and> url \<noteq> [] \<and>
        find_content L c content_selectors = Inr content \<and>
        r = classify (normalize_url url) title (clean_content content)"
  unfolding process_result_def
  by (auto split: sum.splits option.splits if_splits simp: item_str_Inr)

lemma response_sub:
  "r \<in> set (response L text) \<Longrightarrow>
     (\<exists>c. process_result L c = Inr (Some r)) \<or> (\<exists>link. process_link L link = Inr (Some r))"
proof -
  assume r: "r \<in> set (response L text)"
  show ?thesis
  proof (cases "fromstring L text")
    case (Inl e)
    with r show ?thesis by (simp add: response_eq)
  next
    case (Inr doc)
    show ?thesis
    proof (cases "py_iter (select_results L (Elem doc))")
      case (Inl e)
      with r Inr show ?thesis by (simp add: response_eq)
    next
      case cands: (Inr candidates)
      show ?thesis
      proof (cases "process_results L candidates [] = []")
        case True
        with r Inr cands have "r \<in> set (snd (link_fallback L (Elem doc) []))"
          by (simp add: response_eq)
        from link_fallback_sub [OF this] show ?thesis by blast
      next
        case False
        with r Inr cands have "r \<in> set (process_results L candidates [])"
          by (simp add: response_eq)
        with process_results_sub [of L candidates "[]"] show ?thesis by auto
      qed
    qed
  qed
qed

lemma result_content_classify [simp]: "result_content (classify url title content) = content"
  by (simp add: classify_def Let_def)

lemma result_url_classify [simp]: "result_url (classify url title content) = url"
  by (simp add: classify_def Let_def)

lemma clean_content_length: "length (clean_content content) \<le> 300"
  by (simp add: clean_content_def Let_def)

lemma clean_content_truncated:
  "length (strip (re_sub_spaces content)) > 300 \<Longrightarrow>
     clean_content content = take 297 (strip (re_sub_spaces content)) @ ''...''"
  by (simp add: clean_content_def Let_def)

lemma fallback_links_mem:
  "r \<in> set (fallback_links L ls res) \<Longrightarrow> r \<in> set res \<or> (\<exists>l \<in> set ls. process_link L l = Inr (Some r))"
  using fallback_links_sub [of L ls res] by auto

subsection \<open>A document that does not parse\<close>

text \<open>
  C7. When \<open>html.fromstring\<close> raises on the text of the response, \<open>response\<close> returns
  the empty result set: the exception is the one that left the outer \<open>try\<close>, whose
  handler passes, and nothing reaches the host.
\<close>

theorem response_parse_failure:
  "fromstring L text = Inl e \<Longrightarrow> response L text = [] \<and> fst (response_try L text []) = Some e"
  by (simp add: response_def response_try_def)

theorem response_parse_failure_witness:
  "response links_doc [] = []
     \<and> fst (response_try links_doc [] []) = Some (LibraryError ''ParserError: Document is empty'')"
proof -
  have "fromstring links_doc [] = Inl (LibraryError ''ParserError: Document is empty'')"
    by (simp add: links_doc_def table_lib_def)
  from response_parse_failure [OF this] show ?thesis .
qed

subsection \<open>\<open>eval_xpath\<close>\<close>

text \<open>
  C10, as amended. \<open>eval_xpath\<close> never raises: whenever the evaluation raises it
  returns the empty list, and otherwise it returns the value of the evaluation
  unchanged, so it returns a list whenever the evaluation yields one (as for every
  node-set expression). It does not turn another value into a list.
\<close>

theorem eval_xpath_total:
  "(\<forall>e. element_xpath L element xpath_expr = Inl e \<longrightarrow> eval_xpath L element xpath_expr = XList [])
   \<and> (\<forall>v. element_xpath L element xpath_expr = Inr v \<longrightarrow> eval_xpath L element xpath_expr = v)
   \<and> ((\<forall>v. element_xpath L element xpath_expr = Inr v \<longrightarrow> is_list v)
          \<longrightarrow> is_list (eval_xpath L element xpath_expr))"
  by (auto simp: eval_xpath_def split: sum.splits)

theorem eval_xpath_total_witness:
  "eval_xpath links_doc (Elem 0) ''//['' = XList []
   \<and> eval_xpath links_doc (Elem 0) ''//a[@href]'' = XList [Elem 1, Elem 2, Elem 3, Elem 4]"
proof -
  have a: "element_xpath links_doc (Elem 0) ''//['' = Inl (LibraryError ''XPathEvalError: Invalid expression'')"
    by (simp add: links_doc_def table_lib_def)
  have b: "element_xpath links_doc (Elem 0) ''//a[@href]'' = Inr (XList [Elem 1, Elem 2, Elem 3, Elem 4])"
    by (simp add: links_doc_def table_lib_def)
  from eval_xpath_total [of links_doc "Elem 0" "''//[''"] a
  have "eval_xpath links_doc (Elem 0) ''//['' = XList []" by blast
  moreover from eval_xpath_total [of links_doc "Elem 0" "''//a[@href]''"] b
  have "eval_xpath links_doc (Elem 0) ''//a[@href]'' = XList [Elem 1, Elem 2, Elem 3, Elem 4]" by blast
  ultimately show ?thesis by simp
qed

text \<open>
  C10 as stated fails: a numeric expression evaluates to a float, which \<open>eval_xpath\<close>
  returns as it is.
\<close>

theorem eval_xpath_not_list_counterexample:
  "eval_xpath links_doc (Elem 0) ''count(//a)'' = XScalar True
   \<and> \<not> is_list (eval_xpath links_doc (Elem 0) ''count(//a)'')"
  by (simp add: eval_xpath_def links_doc_def table_lib_def)

subsection \<open>The link fallback of the last resort\<close>

text \<open>
  C6. The block under \<open>if len(res.results) == 0\<close> contributes to the result set only
  when the loop over the candidates added nothing; it leaves at most 10 records, and
  each of them is a link of \<open>//a[@href]\<close> whose \<open>href\<close> starts with none of \<open>#\<close>,
  \<open>javascript:\<close> and \<open>mailto:\<close> and whose visible text, trimmed, is longer than 10
  characters.
\<close>

theorem link_fallback_tier2:
  "response L text =
     (case fromstring L text of
        Inl e \<Rightarrow> []
      | Inr doc \<Rightarrow>
          (case py_iter (select_results L (Elem doc)) of
             Inl e \<Rightarrow> []
           | Inr candidates \<Rightarrow>
               if process_results L candidates [] = []
               then snd (link_fallback L (Elem doc) [])
               else process_results L candidates []))
   \<and> length (snd (link_fallback L d [])) \<le> 10
   \<and> (\<forall>r \<in> set (snd (link_fallback L d [])).
         \<exists>all_links link href link_text.
            py_iter (eval_xpath L d ''//a[@href]'') = Inr all_links \<and> link \<in> set all_links \<and>
            eval_xpath_getindex L link ''./@href'' = Inr (Some href) \<and>
            extract_text L link = Inr (Some link_text) \<and>
            r = Link (normalize_url href) (strip link_text) ''Content from Nishith Desai Associates'' \<and>
            \<not> prefix ''#'' href \<and> \<not> prefix ''javascript:'' href \<and> \<not> prefix ''mailto:'' href \<and>
            length (strip link_text) > 10)"
proof (intro conjI ballI)
  show "response L text =
     (case fromstring L text of
        Inl e \<Rightarrow> []
      | Inr doc \<Rightarrow>
          (case py_iter (select_results L (Elem doc)) of
             Inl e \<Rightarrow> []
           | Inr candidates \<Rightarrow>
               if process_results L candidates [] = []
               then snd (link_fallback L (Elem doc) [])
               else process_results L candidates []))"
    by (rule response_eq)
next
  show "length (snd (link_fallback L d [])) \<le> 10"
    by (rule link_fallback_length)
next
  fix r
  assume r: "r \<in> set (snd (link_fallback L d []))"
  show "\<exists>all_links link href link_text.
            py_iter (eval_xpath L d ''//a[@href]'') = Inr all_links \<and> link \<in> set all_links \<and>
            eval_xpath_getindex L link ''./@href'' = Inr (Some href) \<and>
            extract_text L link = Inr (Some link_text) \<and>
            r = Link (normalize_url href) (strip link_text) ''Content from Nishith Desai Associates'' \<and>
            \<not> prefix ''#'' href \<and> \<not> prefix ''javascript:'' href \<and> \<not> prefix ''mailto:'' href \<and>
            length (strip link_text) > 10"
  proof (cases "py_iter (eval_xpath L d ''//a[@href]'')")
    case (Inl e)
    with r show ?thesis by (simp add: link_fallback_snd)
  next
    case (Inr all_links)
    with r have "r \<in> set (fallback_links L all_links [])" by (simp add: link_fallback_snd)
    from fallback_links_mem [OF this] obtain link
      where l: "link \<in> set all_links" "process_link L link = Inr (Some r)" by auto
    from process_link_Some [OF l(2)] Inr l(1) show ?thesis by blast
  qed
qed

theorem link_fallback_tier2_witness:
  "response links_doc links_html = snd (link_fallback links_doc (Elem 0) [])
   \<and> response links_doc links_html =
       [Link ''https://www.nishithdesai.com/insights/funds.html'' ''Fund formation insights''
          ''Content from Nishith Desai Associates'']
   \<and> length (response links_doc links_html) \<le> 10"
proof -
  have a: "fromstring links_doc links_html = Inr 0" by code_simp
  have b: "py_iter (select_results links_doc (Elem 0)) = Inr [Elem 1, Elem 4]" by code_simp
  have c: "process_results links_doc [Elem 1, Elem 4] [] = []" by code_simp
  have d: "snd (link_fallback links_doc (Elem 0) []) =
       [Link ''https://www.nishithdesai.com/insights/funds.html'' ''Fund formation insights''
          ''Content from Nishith Desai Associates'']" by code_simp
  from link_fallback_tier2 [of links_doc links_html "Elem 0"] a b c
  have e: "response links_doc links_html = snd (link_fallback links_doc (Elem 0) [])"
    and f: "length (snd (link_fallback links_doc (Elem 0) [])) \<le> 10"
    by simp_all
  from e f d show ?thesis by simp
qed

subsection \<open>The length of a snippet\<close>

text \<open>
  C2, as amended. Every record of a result set has a content of at most 300 characters:
  it is the fixed text of the link fallback, or the cleaned content of a candidate.
  Whenever the content of a candidate, once its whitespace runs are collapsed and it is
  trimmed, is longer than 300 characters, the cleaned content is 300 characters long and
  its last 3 characters are three full stops.
\<close>

theorem snippet_length:
  "(\<forall>r \<in> set (response L text).
      length (result_content r) \<le> 300
      \<and> (result_content r = ''Content from Nishith Desai Associates''
           \<or> (\<exists>c content. find_content L c content_selectors = Inr content
                 \<and> result_content r = clean_content content)))
   \<and> (length (strip (re_sub_spaces content)) > 300 \<longrightarrow>
        length (clean_content content) = 300 \<and> drop 297 (clean_content content) = ''...'')"
proof (intro conjI ballI impI)
  fix r
  assume "r \<in> set (response L text)"
  from response_sub [OF this]
  consider (tier1) c where "process_result L c = Inr (Some r)"
    | (tier2) link where "process_link L link = Inr (Some r)" by blast
  then have "(length (result_content r) \<le> 300) \<and>
    (result_content r = ''Content from Nishith Desai Associates''
           \<or> (\<exists>c content. find_content L c content_selectors = Inr content
                 \<and> result_content r = clean_content content))"
  proof cases
    case tier1
    from process_result_Some [OF this] obtain title url content
      where "find_content L c content_selectors = Inr content"
        and "r = classify (normalize_url url) title (clean_content content)" by blast
    then have "result_content r = clean_content content
        \<and> find_content L c content_selectors = Inr content" by simp
    with clean_content_length [of content] show ?thesis by metis
  next
    case tier2
    from process_link_Some [OF this] show ?thesis by auto
  qed
  then show "length (result_content r) \<le> 300"
    and "result_content r = ''Content from Nishith Desai Associates''
           \<or> (\<exists>c content. find_content L c content_selectors = Inr content
                 \<and> result_content r = clean_content content)" by simp_all
next
  assume "length (strip (re_sub_spaces content)) > 300"
  then show "length (clean_content content) = 300"
    by (simp add: clean_content_truncated)
next
  assume "length (strip (re_sub_spaces content)) > 300"
  then show "drop 297 (clean_content content) = ''...''"
    by (simp add: clean_content_truncated)
qed

theorem snippet_length_witness:
  "response long_doc long_html =
     [Link ''https://www.nishithdesai.com/insights/arbitration.html''
        ''[Legal Content] Long read on arbitration'' (clean_content long_paragraph)]
   \<and> length (result_content
         (Link ''https://www.nishithdesai.com/insights/arbitration.html''
            ''[Legal Content] Long read on arbitration'' (clean_content long_paragraph))) \<le> 300
   \<and> length (clean_content long_paragraph) = 300
   \<and> drop 297 (clean_content long_paragraph) = ''...''"
proof -
  have long: "length (strip (re_sub_spaces long_paragraph)) > 300"
    by code_simp
  have run: "response long_doc long_html =
     [Link ''https://www.nishithdesai.com/insights/arbitration.html''
        ''[Legal Content] Long read on arbitration'' (clean_content long_paragraph)]"
    by code_simp
  note inst = snippet_length [of long_doc long_html long_paragraph]
  from inst have "\<forall>r \<in> set (response long_doc long_html). length (result_content r) \<le> 300"
    by blast
  then have a: "length (result_content
         (Link ''https://www.nishithdesai.com/insights/arbitration.html''
            ''[Legal Content] Long read on arbitration'' (clean_content long_paragraph))) \<le> 300"
    unfolding run by simp
  from inst long
  have b: "length (clean_content long_paragraph) = 300 \<and> drop 297 (clean_content long_paragraph) = ''...''"
    by blast
  from run a b show ?thesis by blast
qed

text \<open>
  C2 as stated fails: the length is tested after the whitespace runs are collapsed, so an
  original content of 402 characters, most of them spaces, is emitted as \<open>a b\<close> with
  no full stops.
\<close>

theorem wide_content_counterexample:
  "find_content wide_doc (Elem 0) content_selectors = Inr wide_paragraph
   \<and> length wide_paragraph = 402
   \<and> response wide_doc wide_html =
       [Link ''https://www.nishithdesai.com/insights/wide.html''
          ''[Legal Content] Widely spaced note'' ''a b'']"
  by code_simp

subsection \<open>The URL of a record\<close>

text \<open>
  C1 fails on the code. The normalisation passes through every \<open>href\<close> that starts with
  the four letters \<open>http\<close>, so the relative link \<open>http-status.html\<close> of a result card
  is emitted as it stands: the URL of the record is not absolute.
\<close>

theorem response_http_relative:
  "response http_doc http_html =
     [Link ''http-status.html'' ''[Legal Content] HTTP status codes'' ''HTTP status codes Read more'']
   \<and> \<not> is_absolute ''http-status.html''"
  by code_simp

subsection \<open>What holds of the title and the URL\<close>

lemma strip_fixed:
  "s \<noteq> [] \<Longrightarrow> \<not> isspace (hd s) \<Longrightarrow> \<not> isspace (last s) \<Longrightarrow> strip s = s"
proof -
  assume ne: "s \<noteq> []" and h: "\<not> isspace (hd s)" and l: "\<not> isspace (last s)"
  from ne h have a: "dropWhile isspace s = s" by (cases s) simp_all
  from ne l have "\<not> isspace (hd (rev s))" by (simp add: hd_rev)
  with ne have "dropWhile isspace (rev s) = rev s" by (cases "rev s") simp_all
  with a show ?thesis by (simp add: strip_def)
qed

lemma dropWhile_last:
  "dropWhile P xs \<noteq> [] \<Longrightarrow> last (dropWhile P xs) = last xs"
  by (induction xs) (auto split: if_splits)

lemma strip_ends:
  assumes "strip s \<noteq> []"
  shows "\<not> isspace (hd (strip s)) \<and> \<not> isspace (last (strip s))"
proof -
  define d where "d = dropWhile isspace s"
  define e where "e = dropWhile isspace (rev d)"
  have s: "strip s = rev e" by (simp add: strip_def d_def e_def)
  with assms have e: "e \<noteq> []" by simp
  then have "\<not> isspace (hd e)" unfolding e_def by (rule hd_dropWhile)
  then have l: "\<not> isspace (last (strip s))" using e s by (simp add: last_rev)
  from e have d: "d \<noteq> []" by (auto simp: e_def)
  then have "\<not> isspace (hd d)" unfolding d_def by (rule hd_dropWhile)
  moreover have "last e = last (rev d)" using e unfolding e_def by (rule dropWhile_last)
  ultimately have "\<not> isspace (last e)" using d by (simp add: last_rev)
  then have "\<not> isspace (hd (strip s))" using e s by (simp add: hd_rev)
  with l show ?thesis by simp
qed

lemma strip_strip: "strip (strip s) = strip s"
proof (cases "strip s = []")
  case True
  have "strip [] = []" by (simp add: strip_def)
  with True show ?thesis by simp
next
  case False
  with strip_ends [OF False] show ?thesis by (simp add: strip_fixed)
qed

lemma strip_prefixed:
  assumes "p \<noteq> []" and "\<not> isspace (hd p)" and "strip s \<noteq> []"
  shows "strip (p @ strip s) = p @ strip s"
proof (rule strip_fixed)
  show "p @ strip s \<noteq> []" using assms(1) by simp
  show "\<not> isspace (hd (p @ strip s))" using assms(1,2) by simp
  show "\<not> isspace (last (p @ strip s))" using assms(3) strip_ends [OF assms(3)] by simp
qed

lemma find_title_stripped:
  fixes L :: "'e lib"
  shows "find_title L c sels = Inr (Some t) \<Longrightarrow> strip t = t"
proof (induction sels)
  case Nil
  then show ?case by simp
next
  case (Cons sel sels)
  show ?case
  proof (cases "truthy (eval_xpath L c sel)")
    case True
    with Cons.prems obtain x :: "'e item" where "item_strip x = Inr t"
      by (auto simp: Let_def split: sum.splits)
    then obtain s where "t = strip s" by (cases x) auto
    then show ?thesis by (simp add: strip_strip)
  next
    case False
    with Cons show ?thesis by simp
  qed
qed

lemma classify_title:
  "length title \<ge> 5 \<Longrightarrow> strip title = title \<Longrightarrow>
     length (strip (result_title (classify url title content))) \<ge> 5"
proof -
  assume len: "length title \<ge> 5" and st: "strip title = title"
  then have ne: "strip title \<noteq> []" by auto
  have pre: "\<And>p. p \<noteq> [] \<Longrightarrow> \<not> isspace (hd p) \<Longrightarrow> length (strip (p @ title)) \<ge> 5"
  proof -
    fix p :: string
    assume "p \<noteq> []" and "\<not> isspace (hd p)"
    from strip_prefixed [OF this ne] st have "strip (p @ title) = p @ title" by simp
    with len show "length (strip (p @ title)) \<ge> 5" by simp
  qed
  have sp: "\<not> isspace CHR ''[''" by (simp add: isspace_def)
  have "length (strip (''[Legal Hotline] '' @ title)) \<ge> 5" using sp by (intro pre) simp_all
  moreover have "length (strip (''[Research Article] '' @ title)) \<ge> 5" using sp by (intro pre) simp_all
  moreover have "length (strip (''[News] '' @ title)) \<ge> 5" using sp by (intro pre) simp_all
  moreover have "length (strip (''[Legal Content] '' @ title)) \<ge> 5" using sp by (intro pre) simp_all
  moreover have "length (strip title) \<ge> 5" using st len by simp
  ultimately show ?thesis by (simp add: classify_def Let_def del: append.simps)
qed

lemma normalize_url_http: "url \<noteq> [] \<Longrightarrow> prefix ''http'' (normalize_url url)"
  by (auto simp: normalize_url_def base_url_def)

text \<open>
  Every record of a result set, of either tier, has a title of at least 5 characters
  after trimming, and a URL that starts with the letters \<open>http\<close>: the URL is either
  \<open>base_url\<close> followed by the \<open>href\<close>, or the \<open>href\<close> itself when that starts with
  \<open>http\<close>.
\<close>

theorem emitted_title_url:
  "\<forall>r \<in> set (response L text).
      length (strip (result_title r)) \<ge> 5 \<and> prefix ''http'' (result_url r)"
proof
  fix r
  assume "r \<in> set (response L text)"
  from response_sub [OF this]
  consider (tier1) c where "process_result L c = Inr (Some r)"
    | (tier2) link where "process_link L link = Inr (Some r)" by blast
  then show "length (strip (result_title r)) \<ge> 5 \<and> prefix ''http'' (result_url r)"
  proof cases
    case tier1
    from process_result_Some [OF this] obtain title url content
      where t: "find_title L c title_selectors = Inr (Some title)" "length title \<ge> 5"
        and u: "url \<noteq> []"
        and r: "r = classify (normalize_url url) title (clean_content content)" by blast
    from find_title_stripped [OF t(1)] t(2) r u show ?thesis
      by (simp add: classify_title normalize_url_http)
  next
    case tier2
    from process_link_Some [OF this] obtain href link_text
      where "r = Link (normalize_url href) (strip link_text) ''Content from Nishith Desai Associates''"
        and "href \<noteq> []" and "length (strip link_text) > 10" by blast
    then show ?thesis by (simp add: strip_strip normalize_url_http)
  qed
qed

theorem emitted_title_url_witness:
  "response pdf_doc pdf_html =
       [Link ''https://www.nishithdesai.com/hotline/note.pdf''
          ''[Legal Hotline] Tax note 2024'' ''Tax note 2024 Download'',
        File ''https://www.nishithdesai.com/files/annual.pdf'' ''Annual report''
          ''Annual report Download'' ''files.html'']
   \<and> length (strip ''[Legal Hotline] Tax note 2024'') \<ge> 5
   \<and> length (strip ''Annual report'') \<ge> 5"
proof -
  have run: "response pdf_doc pdf_html =
       [Link ''https://www.nishithdesai.com/hotline/note.pdf''
          ''[Legal Hotline] Tax note 2024'' ''Tax note 2024 Download'',
        File ''https://www.nishithdesai.com/files/annual.pdf'' ''Annual report''
          ''Annual report Download'' ''files.html'']"
    by code_simp
  from emitted_title_url [of pdf_doc pdf_html] show ?thesis
    unfolding run by simp
qed

subsection \<open>The example of the specification\<close>

text \<open>
  The \<open>article\<close> of the specification's example yields one \<open>Link\<close>, with the title
  \<open>[Legal Hotline] Cross-Border Tax Hotline\<close>, the URL joined to the base and the
  paragraph as its content.
\<close>

theorem hotline_example:
  "response hotline_doc hotline_html =
     [Link ''https://www.nishithdesai.com/hotline/123.html''
        ''[Legal Hotline] Cross-Border Tax Hotline'' ''Summary text.'']"
  by code_simp

subsection \<open>Records of the candidates\<close>

lemma process_results_eq:
  "process_results L cs res = res @ List.map_filter (added L) cs"
proof (induction cs arbitrary: res)
  case Nil
  then show ?case by simp
next
  case (Cons c cs)
  show ?case
  proof (cases "process_result L c")
    case (Inl e)
    then show ?thesis using Cons.IH [of res] by (simp add: added_def)
  next
    case (Inr o1)
    then show ?thesis
    proof (cases o1)
      case None
      with Inr show ?thesis using Cons.IH [of res] by (simp add: added_def)
    next
      case (Some r)
      with Inr show ?thesis using Cons.IH [of "res @ [r]"]
        by (simp add: added_def)
    qed
  qed
qed

lemma lower_pdf: "suffix ''.pdf'' url \<Longrightarrow> sublist ''.pdf'' (lower url)"
proof -
  assume "suffix ''.pdf'' url"
  then obtain a where "url = a @ ''.pdf''" by (auto simp: suffix_def)
  then have "lower url = lower a @ ''.pdf'' @ []" by (simp add: lower_def lower_char_def)
  then show ?thesis unfolding sublist_def by blast
qed

lemma classify_pdf:
  "sublist ''.pdf'' (lower url) \<Longrightarrow> \<not> sublist ''hotline'' (lower url) \<Longrightarrow>
   \<not> sublist ''research'' (lower url) \<Longrightarrow> \<not> sublist ''article'' (lower url) \<Longrightarrow>
   \<not> sublist ''news'' (lower url) \<Longrightarrow>
   classify url title content = File url title content ''files.html''"
  by (simp add: classify_def Let_def)

lemma process_result_emit:
  "find_title L c title_selectors = Inr (Some title) \<Longrightarrow> length title \<ge> 5 \<Longrightarrow>
   find_url L c url_selectors = Inr (Some (Str url)) \<Longrightarrow> url \<noteq> [] \<Longrightarrow>
   find_content L c content_selectors = Inr content \<Longrightarrow>
   process_result L c = Inr (Some (classify (normalize_url url) title (clean_content content)))"
  by (auto simp: process_result_def)

lemma map_filter_mem:
  "x \<in> set xs \<Longrightarrow> f x = Some y \<Longrightarrow> y \<in> set (List.map_filter f xs)"
  by (induction xs) (auto split: option.splits)

lemma response_tier1:
  assumes "fromstring L text = Inr doc"
    and "py_iter (select_results L (Elem doc)) = Inr candidates"
    and "c \<in> set candidates" and "process_result L c = Inr (Some r)"
  shows "response L text = List.map_filter (added L) candidates \<and> r \<in> set (response L text)"
proof -
  have a: "added L c = Some r" using assms(4) by (simp add: added_def)
  have eq: "process_results L candidates [] = List.map_filter (added L) candidates"
    by (simp add: process_results_eq)
  from assms(3) a have mem: "r \<in> set (List.map_filter (added L) candidates)"
    by (rule map_filter_mem)
  then have "process_results L candidates [] \<noteq> []" using eq by auto
  with assms(1,2) have "response L text = process_results L candidates []"
    by (simp add: response_eq)
  with eq mem show ?thesis by simp
qed

subsection \<open>PDF documents\<close>

text \<open>
  C3, as amended. A candidate with a title of at least 5 characters, a URL and a content,
  whose normalised URL ends in \<open>.pdf\<close> and, in lower case, holds none of \<open>hotline\<close>,
  \<open>research\<close>, \<open>article\<close> and \<open>news\<close>, adds a \<open>File\<close> whose title is the title
  found, with no prefix. In a result set built from candidates that include it, the record
  is present and every candidate that adds a record has its own: the cap of 10 belongs to
  the link fallback, which does not run then.
\<close>

theorem pdf_classification:
  assumes "find_title L c title_selectors = Inr (Some title)" and "length title \<ge> 5"
    and "find_url L c url_selectors = Inr (Some (Str url))" and "url \<noteq> []"
    and "find_content L c content_selectors = Inr content"
    and "suffix ''.pdf'' (normalize_url url)"
    and "\<not> sublist ''hotline'' (lower (normalize_url url))"
    and "\<not> sublist ''research'' (lower (normalize_url url))"
    and "\<not> sublist ''article'' (lower (normalize_url url))"
    and "\<not> sublist ''news'' (lower (normalize_url url))"
  shows "process_result L c =
           Inr (Some (File (normalize_url url) title (clean_content content) ''files.html''))
         \<and> (\<forall>html doc candidates.
               fromstring L html = Inr doc \<and>
               py_iter (select_results L (Elem doc)) = Inr candidates \<and> c \<in> set candidates \<longrightarrow>
               response L html = List.map_filter (added L) candidates \<and>
               File (normalize_url url) title (clean_content content) ''files.html''
                 \<in> set (response L html))"
proof -
  have "classify (normalize_url url) title (clean_content content)
          = File (normalize_url url) title (clean_content content) ''files.html''"
    using assms(6-10) by (simp add: classify_pdf lower_pdf)
  with process_result_emit [OF assms(1-5)]
  have emit: "process_result L c =
           Inr (Some (File (normalize_url url) title (clean_content content) ''files.html''))"
    by simp
  show ?thesis
  proof (intro conjI allI impI)
    show "process_result L c =
           Inr (Some (File (normalize_url url) title (clean_content content) ''files.html''))"
      by (rule emit)
  next
    fix html doc candidates
    assume h: "fromstring L html = Inr doc \<and>
               py_iter (select_results L (Elem doc)) = Inr candidates \<and> c \<in> set candidates"
    with response_tier1 [of L html doc candidates c, OF _ _ _ emit]
    show "response L html = List.map_filter (added L) candidates" by blast
  next
    fix html doc candidates
    assume h: "fromstring L html = Inr doc \<and>
               py_iter (select_results L (Elem doc)) = Inr candidates \<and> c \<in> set candidates"
    with response_tier1 [of L html doc candidates c, OF _ _ _ emit]
    show "File (normalize_url url) title (clean_content content) ''files.html''
                 \<in> set (response L html)" by blast
  qed
qed

theorem pdf_classification_witness:
  "process_result pdf_doc (Elem 2) =
     Inr (Some (File ''https://www.nishithdesai.com/files/annual.pdf'' ''Annual report''
                  ''Annual report Download'' ''files.html''))
   \<and> File ''https://www.nishithdesai.com/files/annual.pdf'' ''Annual report''
        ''Annual report Download'' ''files.html'' \<in> set (response pdf_doc pdf_html)"
proof -
  have t: "find_title pdf_doc (Elem 2) title_selectors = Inr (Some ''Annual report'')"
    by code_simp
  have tl: "length ''Annual report'' \<ge> 5" by simp
  have u: "find_url pdf_doc (Elem 2) url_selectors = Inr (Some (Str ''/files/annual.pdf''))"
    by code_simp
  have un: "''/files/annual.pdf'' \<noteq> []" by simp
  have c: "find_content pdf_doc (Elem 2) content_selectors = Inr ''Annual report Download''"
    by code_simp
  have n: "normalize_url ''/files/annual.pdf'' = ''https://www.nishithdesai.com/files/annual.pdf''"
    by code_simp
  have cc: "clean_content ''Annual report Download'' = ''Annual report Download''"
    by code_simp
  have s: "suffix ''.pdf'' (normalize_url ''/files/annual.pdf'')" by code_simp
  have h1: "\<not> sublist ''hotline'' (lower (normalize_url ''/files/annual.pdf''))" by code_simp
  have h2: "\<not> sublist ''research'' (lower (normalize_url ''/files/annual.pdf''))" by code_simp
  have h3: "\<not> sublist ''article'' (lower (normalize_url ''/files/annual.pdf''))" by code_simp
  have h4: "\<not> sublist ''news'' (lower (normalize_url ''/files/annual.pdf''))" by code_simp
  have p: "fromstring pdf_doc pdf_html = Inr 0" by code_simp
  have q: "py_iter (select_results pdf_doc (Elem 0)) = Inr [Elem 1, Elem 2]" by code_simp
  have m: "Elem 2 \<in> set [Elem 1, Elem (2::nat)]" by simp
  note inst = pdf_classification [OF t tl u un c s h1 h2 h3 h4, unfolded n cc]
  from inst have a: "process_result pdf_doc (Elem 2) =
     Inr (Some (File ''https://www.nishithdesai.com/files/annual.pdf'' ''Annual report''
                  ''Annual report Download'' ''files.html''))" by (rule conjunct1)
  from inst p q m have b: "File ''https://www.nishithdesai.com/files/annual.pdf'' ''Annual report''
        ''Annual report Download'' ''files.html'' \<in> set (response pdf_doc pdf_html)"
    by blast
  from a b show ?thesis by (rule conjI)
qed

text \<open>
  C3 as stated fails: the chain tests \<open>hotline\<close>, \<open>research\<close>, \<open>article\<close> and
  \<open>news\<close> before \<open>.pdf\<close>, so a PDF under \<open>/hotline/\<close> is added as a \<open>Link\<close> with
  the prefix \<open>[Legal Hotline]\<close>.
\<close>

theorem pdf_under_hotline_counterexample:
  "process_result pdf_doc (Elem 1) =
     Inr (Some (Link ''https://www.nishithdesai.com/hotline/note.pdf''
                  ''[Legal Hotline] Tax note 2024'' ''Tax note 2024 Download''))
   \<and> suffix ''.pdf'' ''https://www.nishithdesai.com/hotline/note.pdf''
   \<and> response pdf_doc pdf_html =
       [Link ''https://www.nishithdesai.com/hotline/note.pdf''
          ''[Legal Hotline] Tax note 2024'' ''Tax note 2024 Download'',
        File ''https://www.nishithdesai.com/files/annual.pdf'' ''Annual report''
          ''Annual report Download'' ''files.html'']"
  by code_simp

subsection \<open>The title of a candidate\<close>

lemma process_result_None:
  "process_result L c = Inr None \<longleftrightarrow>
     (find_title L c title_selectors = Inr None
      \<or> (\<exists>t. find_title L c title_selectors = Inr (Some t)
             \<and> (length t < 5
                 \<or> find_url L c url_selectors = Inr None
                 \<or> (\<exists>u. find_url L c url_selectors = Inr (Some u) \<and> \<not> item_truthy L u))))"
  unfolding process_result_def
  by (auto split: sum.splits option.splits if_splits)

lemma find_title_first_nonempty:
  fixes L :: "'e lib"
  shows "find_title L c sels = Inr (Some t) \<Longrightarrow> t \<noteq> [] \<Longrightarrow> first_nonempty_match L c sels = Some t"
proof (induction sels)
  case Nil
  then show ?case by simp
next
  case (Cons sel sels)
  show ?case
  proof (cases "truthy (eval_xpath L c sel)")
    case True
    with Cons.prems(1) obtain x :: "'e item"
      where x: "subscript0 (eval_xpath L c sel) = Inr x" and t: "item_strip x = Inr t"
      by (auto simp: Let_def split: sum.splits)
    from t obtain s where s: "x = Str s" "t = strip s" by (cases x) auto
    from x s(1) obtain xs where "selector_matches L c sel = Str s # xs"
      by (cases "eval_xpath L c sel" rule: subscript0.cases) (auto simp: selector_matches_def)
    with s(2) Cons.prems(2) show ?thesis by (simp add: first_nonempty_match_def)
  next
    case False
    then have "selector_matches L c sel = []"
      by (cases "eval_xpath L c sel") (auto simp: selector_matches_def)
    moreover from False Cons.prems(1) have "find_title L c sels = Inr (Some t)" by simp
    ultimately show ?thesis using Cons.IH Cons.prems(2) by (simp add: first_nonempty_match_def)
  qed
qed

text \<open>
  C4, as amended. Whenever the title found is not empty, it is the first non-empty text
  match in the priority order of \<open>title_selectors\<close> (the headings \<open>h1\<close> to \<open>h4\<close>, then
  the anchors, then \<open>strong\<close>, then the elements of class \<open>title\<close>). The candidate is
  skipped by a \<open>continue\<close> exactly when the title is absent or shorter than 5 characters,
  or the title is long enough and no URL is found (none, or a falsy one such as the empty
  string).
\<close>

theorem title_priority:
  "(find_title L c title_selectors = Inr (Some t) \<and> t \<noteq> []
      \<longrightarrow> first_nonempty_match L c title_selectors = Some t)
   \<and> (process_result L c = Inr None \<longleftrightarrow>
        (find_title L c title_selectors = Inr None
         \<or> (\<exists>t. find_title L c title_selectors = Inr (Some t)
                \<and> (length t < 5
                    \<or> find_url L c url_selectors = Inr None
                    \<or> (\<exists>u. find_url L c url_selectors = Inr (Some u) \<and> \<not> item_truthy L u)))))"
proof (intro conjI impI)
  assume "find_title L c title_selectors = Inr (Some t) \<and> t \<noteq> []"
  then show "first_nonempty_match L c title_selectors = Some t"
    using find_title_first_nonempty [of L c title_selectors t] by blast
next
  show "process_result L c = Inr None \<longleftrightarrow>
        (find_title L c title_selectors = Inr None
         \<or> (\<exists>t. find_title L c title_selectors = Inr (Some t)
                \<and> (length t < 5
                    \<or> find_url L c url_selectors = Inr None
                    \<or> (\<exists>u. find_url L c url_selectors = Inr (Some u) \<and> \<not> item_truthy L u))))"
    by (rule process_result_None)
qed

theorem title_priority_witness:
  "first_nonempty_match hotline_doc (Elem 0) title_selectors = Some ''Cross-Border Tax Hotline''
   \<and> find_title hotline_doc (Elem 0) title_selectors = Inr (Some ''Cross-Border Tax Hotline'')
   \<and> process_result nolink_doc (Elem 0) = Inr None"
proof -
  have t1: "find_title hotline_doc (Elem 0) title_selectors = Inr (Some ''Cross-Border Tax Hotline'')"
    by code_simp
  have ne: "''Cross-Border Tax Hotline'' \<noteq> []" by simp
  from title_priority [of hotline_doc "Elem 0" "''Cross-Border Tax Hotline''"] t1 ne
  have a: "first_nonempty_match hotline_doc (Elem 0) title_selectors = Some ''Cross-Border Tax Hotline''"
    by blast
  have t2: "find_title nolink_doc (Elem 0) title_selectors = Inr (Some ''Untitled research memo'')"
    by code_simp
  have u: "find_url nolink_doc (Elem 0) url_selectors = Inr None"
    by code_simp
  from title_priority [of nolink_doc "Elem 0"] t2 u
  have b: "process_result nolink_doc (Elem 0) = Inr None" by blast
  from a t1 b show ?thesis by blast
qed

text \<open>
  C4 as stated fails twice. A result card with a good title and no \<open>href\<close> in it is
  skipped as well. And the loop over \<open>title_selectors\<close> stops at the first selector that
  yields anything: the blank text of an \<open>h2\<close> is taken, trimmed to nothing, and the card
  is skipped although its anchor holds the first non-empty text match.
\<close>

theorem skipped_with_title_counterexample:
  "process_result nolink_doc (Elem 0) = Inr None
   \<and> find_title nolink_doc (Elem 0) title_selectors = Inr (Some ''Untitled research memo'')
   \<and> length (strip ''Untitled research memo'') = 22
   \<and> response nolink_doc nolink_html = []
   \<and> first_nonempty_match blanktitle_doc (Elem 0) title_selectors = Some ''Proper anchor title''
   \<and> find_title blanktitle_doc (Elem 0) title_selectors = Inr (Some [])
   \<and> process_result blanktitle_doc (Elem 0) = Inr None"
  by code_simp

subsection \<open>The content of a candidate\<close>

lemma find_content_skip:
  "\<forall>b \<in> set before. \<not> truthy (eval_xpath L c b) \<Longrightarrow>
     find_content L c (before @ rest) = find_content L c rest"
  by (induction before) simp_all

lemma stripped_nonempty_strs:
  "stripped_nonempty (map Str texts) = Inr (filter (\<lambda>s. s \<noteq> []) (map strip texts))"
  by (induction texts) simp_all

lemma find_content_first:
  "eval_xpath L c sel = XList (map Str texts) \<Longrightarrow> texts \<noteq> [] \<Longrightarrow>
     find_content L c (sel # rest) =
       Inr (join '' '' (filter (\<lambda>s. s \<noteq> []) (map strip (take 3 texts))))"
  by (simp add: take_map stripped_nonempty_strs)

lemma re_sub_spaces_only_space:
  "ch \<in> set (re_sub_spaces s) \<Longrightarrow> isspace ch \<Longrightarrow> ch = CHR '' ''"
  by (induction s rule: re_sub_spaces.induct) (auto split: if_splits)

lemma re_sub_spaces_no_runs:
  "successively (\<lambda>a b. \<not> (isspace a \<and> isspace b)) (re_sub_spaces s)"
proof (induction s rule: re_sub_spaces.induct)
  case 1
  then show ?case by simp
next
  case (2 c cs)
  show ?case
  proof (cases "isspace c")
    case True
    show ?thesis
    proof (cases "dropWhile isspace cs")
      case Nil
      with True show ?thesis by (simp del: dropWhile_eq_Nil_conv)
    next
      case (Cons d ds)
      then have "\<not> isspace d" using hd_dropWhile [of isspace cs] by auto
      with True Cons 2(1) show ?thesis by (auto simp: successively_Cons)
    qed
  next
    case False
    with 2(2) show ?thesis by (cases "re_sub_spaces cs") (auto simp: successively_Cons)
  qed
qed

lemma re_sub_spaces_append:
  "a = [] \<or> \<not> isspace (last a) \<Longrightarrow> re_sub_spaces (a @ b) = re_sub_spaces a @ re_sub_spaces b"
proof (induction a rule: re_sub_spaces.induct)
  case 1
  then show ?case by simp
next
  case (2 c cs)
  show ?case
  proof (cases "isspace c")
    case True
    with "2.prems" have cs: "cs \<noteq> []" "\<not> isspace (last cs)" by (auto split: if_splits)
    then have mem: "last cs \<in> set cs" by simp
    from mem cs(2) have split: "dropWhile isspace (cs @ b) = dropWhile isspace cs @ b"
      by (rule dropWhile_append1)
    from mem cs(2) have ne: "dropWhile isspace cs \<noteq> []" by auto
    then have "last (dropWhile isspace cs) = last cs" by (rule dropWhile_last)
    with cs(2) have "dropWhile isspace cs = [] \<or> \<not> isspace (last (dropWhile isspace cs))"
      by simp
    from "2.IH"(1) [OF True this] True split show ?thesis by simp
  next
    case False
    with "2.prems" have "cs = [] \<or> \<not> isspace (last cs)" by (auto split: if_splits)
    from "2.IH"(2) [OF False this] False show ?thesis by simp
  qed
qed

lemma re_sub_spaces_run:
  "w \<noteq> [] \<Longrightarrow> \<forall>ch \<in> set w. isspace ch \<Longrightarrow> b = [] \<or> \<not> isspace (hd b) \<Longrightarrow>
     re_sub_spaces (w @ b) = CHR '' '' # re_sub_spaces b"
proof -
  assume w: "w \<noteq> []" and sp: "\<forall>ch \<in> set w. isspace ch" and b: "b = [] \<or> \<not> isspace (hd b)"
  from w obtain c cs where c: "w = c # cs" by (cases w) auto
  from sp c have "dropWhile isspace (cs @ b) = dropWhile isspace b"
    by (intro dropWhile_append2) simp
  also from b have "dropWhile isspace b = b" by (cases b) auto
  finally show ?thesis using c sp by simp
qed

lemma re_sub_spaces_plain:
  "\<forall>ch \<in> set s. \<not> isspace ch \<Longrightarrow> re_sub_spaces s = s"
  by (induction s) simp_all

text \<open>
  C5, as amended. When the first selector of \<open>content_selectors\<close> whose evaluation is not
  empty yields the text fragments \<open>texts\<close>, the content before the clean-up is the
  non-empty ones among the first 3 fragments, each trimmed, joined with a single space.
  The content of the record is the clean-up of it: the whitespace runs collapsed, the
  result trimmed and cut to 300 characters. Collapsing leaves a text without whitespace
  as it is and puts one space for a run of whitespace between two texts that it
  collapses each on its own; so every run becomes a single space and nothing else
  changes. No two whitespace characters are left side by side, and no whitespace character
  but the space.
\<close>

theorem content_first3:
  "(content_selectors = before @ sel # rest
      \<and> (\<forall>b \<in> set before. \<not> truthy (eval_xpath L c b))
      \<and> eval_xpath L c sel = XList (map Str texts) \<and> texts \<noteq> []
      \<longrightarrow> find_content L c content_selectors =
            Inr (join '' '' (filter (\<lambda>s. s \<noteq> []) (map strip (take 3 texts)))))
   \<and> (\<forall>r. process_result L c = Inr (Some r) \<longrightarrow>
         (\<exists>content. find_content L c content_selectors = Inr content
            \<and> result_content r = clean_content content))
   \<and> clean_content content =
       (if length (strip (re_sub_spaces content)) > 300
        then take 297 (strip (re_sub_spaces content)) @ ''...''
        else strip (re_sub_spaces content))
   \<and> ((\<forall>ch \<in> set s. \<not> isspace ch) \<longrightarrow> re_sub_spaces s = s)
   \<and> ((a = [] \<or> \<not> isspace (last a)) \<and> w \<noteq> [] \<and> (\<forall>ch \<in> set w. isspace ch)
        \<and> (b = [] \<or> \<not> isspace (hd b))
        \<longrightarrow> re_sub_spaces (a @ w @ b) = re_sub_spaces a @ '' '' @ re_sub_spaces b)
   \<and> successively (\<lambda>x y. \<not> (isspace x \<and> isspace y)) (re_sub_spaces content)
   \<and> (\<forall>ch \<in> set (re_sub_spaces content). isspace ch \<longrightarrow> ch = CHR '' '')"
proof (intro conjI impI ballI allI)
  assume h: "content_selectors = before @ sel # rest
      \<and> (\<forall>b \<in> set before. \<not> truthy (eval_xpath L c b))
      \<and> eval_xpath L c sel = XList (map Str texts) \<and> texts \<noteq> []"
  then have "find_content L c content_selectors = find_content L c (sel # rest)"
    using find_content_skip [of before L c "sel # rest"] by simp
  with h show "find_content L c content_selectors =
            Inr (join '' '' (filter (\<lambda>s. s \<noteq> []) (map strip (take 3 texts))))"
    using find_content_first [of L c sel texts rest] by simp
next
  fix r
  assume "process_result L c = Inr (Some r)"
  from process_result_Some [OF this]
  show "\<exists>content. find_content L c content_selectors = Inr content
            \<and> result_content r = clean_content content"
    by auto
next
  show "clean_content content =
       (if length (strip (re_sub_spaces content)) > 300
        then take 297 (strip (re_sub_spaces content)) @ ''...''
        else strip (re_sub_spaces content))"
    by (simp add: clean_content_def Let_def)
next
  assume "\<forall>ch \<in> set s. \<not> isspace ch"
  then show "re_sub_spaces s = s" by (rule re_sub_spaces_plain)
next
  assume h: "(a = [] \<or> \<not> isspace (last a)) \<and> w \<noteq> [] \<and> (\<forall>ch \<in> set w. isspace ch)
        \<and> (b = [] \<or> \<not> isspace (hd b))"
  then have "re_sub_spaces (a @ w @ b) = re_sub_spaces a @ re_sub_spaces (w @ b)"
    by (intro re_sub_spaces_append) blast
  also from h have "re_sub_spaces (w @ b) = CHR '' '' # re_sub_spaces b"
    by (intro re_sub_spaces_run) blast+
  finally show "re_sub_spaces (a @ w @ b) = re_sub_spaces a @ '' '' @ re_sub_spaces b"
    by simp
next
  show "successively (\<lambda>x y. \<not> (isspace x \<and> isspace y)) (re_sub_spaces content)"
    by (rule re_sub_spaces_no_runs)
next
  fix ch
  assume "ch \<in> set (re_sub_spaces content)" and "isspace ch"
  then show "ch = CHR '' ''" by (rule re_sub_spaces_only_space)
qed

theorem content_first3_witness:
  "find_content blank_doc (Elem 0) content_selectors = Inr ''alpha beta''
   \<and> re_sub_spaces (''alpha'' @ [CHR '' '', CHR 0x09, CHR '' ''] @ ''beta'') = ''alpha beta''"
proof -
  have sels: "content_selectors = [] @ ''.//p/text()'' # tl content_selectors"
    by (simp add: content_selectors_def)
  have hit: "eval_xpath blank_doc (Elem 0) ''.//p/text()'' = XList (map Str ['' '', ''alpha'', ''beta'', ''gamma''])"
    by code_simp
  have v: "join '' '' (filter (\<lambda>s. s \<noteq> []) (map strip (take 3 ['' '', ''alpha'', ''beta'', ''gamma'']))) = ''alpha beta''"
    by code_simp
  have none: "\<forall>b \<in> set []. \<not> truthy (eval_xpath blank_doc (Elem 0) b)" by simp
  have ne: "['' '', ''alpha'', ''beta'', ''gamma''] \<noteq> []" by simp
  note inst = content_first3 [of "[]" "''.//p/text()''" "tl content_selectors" blank_doc "Elem 0"
      "['' '', ''alpha'', ''beta'', ''gamma'']" _ "''alpha''" "''alpha''"
      "[CHR '' '', CHR 0x09, CHR '' '']" "''beta''"]
  from inst sels none hit ne
  have a: "find_content blank_doc (Elem 0) content_selectors = Inr ''alpha beta''"
    unfolding v by blast
  have l: "''alpha'' = [] \<or> \<not> isspace (last ''alpha'')" by code_simp
  have w: "\<forall>ch \<in> set [CHR '' '', CHR 0x09, CHR '' '']. isspace ch" by code_simp
  have wn: "[CHR '' '', CHR 0x09, CHR '' ''] \<noteq> []" by simp
  have h: "''beta'' = [] \<or> \<not> isspace (hd ''beta'')" by code_simp
  have p: "\<forall>ch \<in> set ''alpha''. \<not> isspace ch" by code_simp
  from inst l wn w h
  have run: "re_sub_spaces (''alpha'' @ [CHR '' '', CHR 0x09, CHR '' ''] @ ''beta'')
      = re_sub_spaces ''alpha'' @ '' '' @ re_sub_spaces ''beta''"
    by blast
  from inst p have pa: "re_sub_spaces ''alpha'' = ''alpha''" by blast
  have pb: "re_sub_spaces ''beta'' = ''beta''" by code_simp
  from run pa pb have b: "re_sub_spaces (''alpha'' @ [CHR '' '', CHR 0x09, CHR '' ''] @ ''beta'') = ''alpha beta''"
    by simp
  from a b show ?thesis by (rule conjI)
qed

text \<open>
  C5 as stated fails: the slice \<open>[:3]\<close> is taken before the empty fragments are
  dropped, so a blank fragment among the first 3 uses up a place. The first 3 non-empty
  fragments of this card are \<open>alpha\<close>, \<open>beta\<close> and \<open>gamma\<close>; its content is
  \<open>alpha beta\<close>.
\<close>

theorem first3_nonempty_counterexample:
  "eval_xpath blank_doc (Elem 0) ''.//p/text()'' = XList [Str '' '', Str ''alpha'', Str ''beta'', Str ''gamma'']
   \<and> find_content blank_doc (Elem 0) content_selectors = Inr ''alpha beta''
   \<and> join '' '' (take 3 (filter (\<lambda>s. s \<noteq> []) (map strip ['' '', ''alpha'', ''beta'', ''gamma''])))
       = ''alpha beta gamma''"
  by code_simp

section \<open>Properties of the request\<close>

subsection \<open>Decimal numbers and quoted bytes\<close>





















subsection \<open>UTF-8 there and back\<close>












subsection \<open>A query string read back\<close>





















subsection \<open>The request\<close>




section \<open>Properties of \<open>fetch_traits\<close>\<close>

text \<open>
  C9. \<open>fetch_traits\<close> is idempotent. On any traits object it sets the locale to
  \<open>en-IN\<close>, maps the language \<open>en\<close> to \<open>English\<close> and adds the regions \<open>IN\<close> and
  \<open>US\<close>, leaving the other entries as they were; on a fresh (empty) traits object the
  outcome is one fixed value, the same at every call.
\<close>

theorem fetch_traits_idempotent:
  "fetch_traits (fetch_traits engine_traits) = fetch_traits engine_traits
   \<and> all_locale (fetch_traits engine_traits) = Some ''en-IN''
   \<and> languages (fetch_traits engine_traits) = (languages engine_traits)(''en'' \<mapsto> ''English'')
   \<and> regions (fetch_traits engine_traits)
       = (regions engine_traits)(''IN'' \<mapsto> ''India'', ''US'' \<mapsto> ''United States'')
   \<and> traits.more (fetch_traits engine_traits) = traits.more engine_traits
   \<and> fetch_traits \<lparr>all_locale = None, languages = Map.empty, regions = Map.empty\<rparr>
       = \<lparr>all_locale = Some ''en-IN'', languages = [''en'' \<mapsto> ''English''],
          regions = [''IN'' \<mapsto> ''India'', ''US'' \<mapsto> ''United States'']\<rparr>"
  by (simp add: fetch_traits_def)

end
